theory Spec2Isabelle
  imports Complex_Main
begin

section \<open>Errors, index arrays and tensors\<close>

text \<open>
  The notebook \<^verbatim>\<open>Node_classification.ipynb\<close> is Python on top of PyTorch and DGL.
  Exceptions are values: a computation returns \<open>Inl e\<close> where the Python raises \<open>e\<close>
  and \<open>Inr v\<close> where it returns \<open>v\<close>. A float tensor of shape \<open>(N, C)\<close> is a list of
  \<open>N\<close> rows of reals, an integer tensor (labels, an index array) is a list of ints, and
  a Python float is a real: rounding, infinities and NaN of IEEE arithmetic are not part
  of the model. \<open>NotANumber\<close> stands for a result that is no real number (a mean over no
  element).
\<close>

datatype error = IndexError | ZeroDivisionError | RuntimeError | ValueError | NotANumber

definition bind_err :: "error + 'a \<Rightarrow> ('a \<Rightarrow> error + 'b) \<Rightarrow> error + 'b" where
  "bind_err m f = (case m of Inl e \<Rightarrow> Inl e | Inr x \<Rightarrow> f x)"

fun map_err :: "('a \<Rightarrow> error + 'b) \<Rightarrow> 'a list \<Rightarrow> error + 'b list" where
  "map_err f [] = Inr []"
| "map_err f (x # xs) = bind_err (f x) (\<lambda>y. bind_err (map_err f xs) (\<lambda>ys. Inr (y # ys)))"

text \<open>
  \<^verbatim>\<open>t[i]\<close> along the first axis: an index below zero counts from the end, an index
  outside \<open>[-n, n)\<close> raises IndexError.
\<close>

definition getitem :: "'a list \<Rightarrow> int \<Rightarrow> error + 'a" where
  "getitem t i =
     (if 0 \<le> i \<and> i < int (length t) then Inr (t ! nat i)
      else if i < 0 \<and> - int (length t) \<le> i then Inr (t ! nat (i + int (length t)))
      else Inl IndexError)"

text \<open>\<^verbatim>\<open>t[idx]\<close> for an integer index array \<open>idx\<close>: one entry (row) per index, in order.\<close>

definition index_select :: "'a list \<Rightarrow> int list \<Rightarrow> error + 'a list" where
  "index_select t idx = map_err (getitem t) idx"

text \<open>
  The number of columns of a tensor given by its rows. The rows of a tensor have one
  length; of rows of different lengths the longest counts. A list of no rows shows no
  column and is read as the tensor of shape \<open>(0, 0)\<close>.
\<close>

definition n_columns :: "real list list \<Rightarrow> nat" where
  "n_columns t = foldr (\<lambda>row n. max (length row) n) t 0"

text \<open>
  \<^verbatim>\<open>_, indices = torch.max(logits, dim=1)\<close>: for every row the position of its
  largest entry, the first one where several entries are largest. The reduction raises
  IndexError when the reduced dimension has size 0, that is when the tensor has no
  column, also when it has no row. Slicing rows keeps the number of columns, which the
  list of the selected rows does not show when no row is selected, so the reduction is
  given \<open>ncols\<close>, the number of columns of the tensor, beside its rows.
\<close>

fun argmax_from :: "nat \<Rightarrow> real \<Rightarrow> nat \<Rightarrow> real list \<Rightarrow> nat" where
  "argmax_from best bv i [] = best"
| "argmax_from best bv i (x # xs) =
     (if bv < x then argmax_from i x (Suc i) xs else argmax_from best bv (Suc i) xs)"

definition argmax_row :: "real list \<Rightarrow> error + int" where
  "argmax_row row =
     (case row of [] \<Rightarrow> Inl IndexError | x # xs \<Rightarrow> Inr (int (argmax_from 0 x 1 xs)))"

definition torch_max_indices :: "nat \<Rightarrow> real list list \<Rightarrow> error + int list" where
  "torch_max_indices ncols logits =
     (if ncols = 0 then Inl IndexError else map_err argmax_row logits)"

text \<open>
  \<^verbatim>\<open>torch.sum(indices == test_labels)\<close>: the number of positions at which two integer
  tensors agree.
\<close>

definition sum_eq :: "int list \<Rightarrow> int list \<Rightarrow> int" where
  "sum_eq a b = int (length (filter (\<lambda>(x, y). x = y) (zip a b)))"

text \<open>\<^verbatim>\<open>range(n)\<close>: empty when \<open>n \<le> 0\<close>.\<close>

definition range_py :: "int \<Rightarrow> int list" where
  "range_py n = map int [0..<nat n]"

text \<open>
  \<^verbatim>\<open>np.where(mask > 0)[0]\<close> on a one-dimensional mask: the positions, in increasing
  order, whose entry is greater than zero. A boolean mask is the mask of entries 0 and 1.
\<close>

definition np_where_gt0 :: "int list \<Rightarrow> int list" where
  "np_where_gt0 msk = map int (filter (\<lambda>i. 0 < msk ! i) [0..<length msk])"

section \<open>The GraphSAGE model\<close>

text \<open>
  \<^verbatim>\<open>dgl_conv.SAGEConv(in_feats, out_feats, aggregator_type, feat_drop=..., activation=...)\<close>
  is a layer of the DGL library. The record keeps what the constructor is given, the
  layer's learnable parameters \<open>sc_params\<close> (its weight matrices and biases, of a type
  \<open>'w\<close> left open) and the mode flag of \<^verbatim>\<open>nn.Module\<close>, which a new module has set.
  The parameters a new layer starts with are drawn by the library; the constructor takes
  them as its first argument.
\<close>

record ('w, 'act) SAGEConv =
  sc_params :: 'w
  sc_in_feats :: int
  sc_out_feats :: int
  sc_aggregator_type :: string
  sc_feat_drop :: real
  sc_activation :: "'act option"
  sc_training :: bool

definition SAGEConv_init ::
  "'w \<Rightarrow> int \<Rightarrow> int \<Rightarrow> string \<Rightarrow> real \<Rightarrow> 'act option \<Rightarrow> ('w, 'act) SAGEConv" where
  "SAGEConv_init w n_in n_out aggregator_type dropout activation =
     \<lparr>sc_params = w, sc_in_feats = n_in, sc_out_feats = n_out,
      sc_aggregator_type = aggregator_type, sc_feat_drop = dropout,
      sc_activation = activation, sc_training = True\<rparr>"

record ('w, 'act) GraphSAGEModel =
  layers :: "('w, 'act) SAGEConv list"
  gm_training :: bool

text \<open>
  \<^verbatim>\<open>GraphSAGEModel.__init__\<close>: an input layer, \<^verbatim>\<open>range(n_layers - 1)\<close> hidden layers and
  an output layer, appended to the module list in this order. \<open>init_w k\<close> is what the
  library draws for the parameters of the layer appended at position \<open>k\<close>. The
  \<^verbatim>\<open>activation\<close> argument is any Python value, \<^verbatim>\<open>None\<close> included.
\<close>

definition GraphSAGEModel_init ::
  "(nat \<Rightarrow> 'w) \<Rightarrow> int \<Rightarrow> int \<Rightarrow> int \<Rightarrow> int \<Rightarrow> 'act option \<Rightarrow> real \<Rightarrow> string
    \<Rightarrow> ('w, 'act) GraphSAGEModel" where
  "GraphSAGEModel_init init_w in_feats n_hidden out_dim n_layers activation dropout aggregator_type =
     (let ls0 = [];
          ls1 = ls0 @ [SAGEConv_init (init_w (length ls0)) in_feats n_hidden
                         aggregator_type dropout activation];
          ls2 = fold (\<lambda>i ls. ls @ [SAGEConv_init (init_w (length ls)) n_hidden n_hidden
                         aggregator_type dropout activation])
                  (range_py (n_layers - 1)) ls1;
          ls3 = ls2 @ [SAGEConv_init (init_w (length ls2)) n_hidden out_dim
                         aggregator_type dropout None]
      in \<lparr>layers = ls3, gm_training = True\<rparr>)"

text \<open>
  Applying a layer, \<^verbatim>\<open>layer(g, h)\<close>, is the library's: a function \<open>conv\<close> of the layer
  (its parameters, configuration and mode), the graph and the node features, which may
  raise. \<^verbatim>\<open>GraphSAGEModel.forward\<close> runs the layers in order.
\<close>

type_synonym ('w, 'act, 'g) conv_fn =
  "('w, 'act) SAGEConv \<Rightarrow> 'g \<Rightarrow> real list list \<Rightarrow> error + real list list"

fun forward_layers ::
  "('w, 'act, 'g) conv_fn \<Rightarrow> ('w, 'act) SAGEConv list \<Rightarrow> 'g \<Rightarrow> real list list
    \<Rightarrow> error + real list list" where
  "forward_layers conv [] g h = Inr h"
| "forward_layers conv (layer # rest) g h =
     bind_err (conv layer g h) (\<lambda>h'. forward_layers conv rest g h')"

definition GraphSAGEModel_forward ::
  "('w, 'act, 'g) conv_fn \<Rightarrow> ('w, 'act) GraphSAGEModel \<Rightarrow> 'g \<Rightarrow> real list list
    \<Rightarrow> error + real list list" where
  "GraphSAGEModel_forward conv self g features = forward_layers conv (layers self) g features"

text \<open>
  \<^verbatim>\<open>nn.Module.train(mode)\<close> sets the mode flag of a module and of every module below
  it; \<^verbatim>\<open>eval()\<close> is \<^verbatim>\<open>train(False)\<close>. Nothing else of a module changes.
\<close>

definition SAGEConv_train :: "bool \<Rightarrow> ('w, 'act) SAGEConv \<Rightarrow> ('w, 'act) SAGEConv" where
  "SAGEConv_train mode layer = layer\<lparr>sc_training := mode\<rparr>"

definition GraphSAGEModel_train ::
  "bool \<Rightarrow> ('w, 'act) GraphSAGEModel \<Rightarrow> ('w, 'act) GraphSAGEModel" where
  "GraphSAGEModel_train mode self =
     self\<lparr>gm_training := mode, layers := map (SAGEConv_train mode) (layers self)\<rparr>"

section \<open>The node classification model\<close>

text \<open>
  Modelled from the spec: the loss of one row under \<^verbatim>\<open>torch.nn.CrossEntropyLoss()\<close>,
  which is PyTorch's and not code of the notebook: minus the logarithm of the soft-max
  probability that the row of scores gives to its target class. A target that is no
  class of the row raises.
\<close>

definition nll_row :: "real list \<Rightarrow> int \<Rightarrow> error + real" where
  "nll_row row t =
     (if 0 \<le> t \<and> t < int (length row)
      then Inr (- ln (exp (row ! nat t) / sum_list (map exp row)))
      else Inl IndexError)"

text \<open>
  Modelled from the spec: \<^verbatim>\<open>torch.nn.CrossEntropyLoss()\<close>, which is PyTorch's and not
  code of the notebook; the spec names it "a cross-entropy loss against ground-truth
  labels". With the constructor's defaults it is the mean of the rows' losses. Rows and
  targets of different number raise, and the mean over no row is no number. (The
  library's \<^verbatim>\<open>ignore_index\<close> target is not modelled.)
\<close>

definition CrossEntropyLoss :: "real list list \<Rightarrow> int list \<Rightarrow> error + real" where
  "CrossEntropyLoss inp target =
     (if length inp \<noteq> length target then Inl ValueError
      else bind_err (map_err (\<lambda>(row, t). nll_row row t) (zip inp target)) (\<lambda>losses.
        if losses = [] then Inl NotANumber
        else Inr (sum_list losses / real (length losses))))"

record ('w, 'act) NodeClassification =
  gconv_model :: "('w, 'act) GraphSAGEModel"
  loss_fcn :: "real list list \<Rightarrow> int list \<Rightarrow> error + real"
  nc_training :: bool

text \<open>
  \<^verbatim>\<open>NodeClassification.__init__(self, gconv_model, n_hidden, n_classes)\<close> stores the
  embedding model and a new cross-entropy loss.
\<close>

definition NodeClassification_init ::
  "('w, 'act) GraphSAGEModel \<Rightarrow> int \<Rightarrow> int \<Rightarrow> ('w, 'act) NodeClassification" where
  "NodeClassification_init gm n_hidden n_classes =
     \<lparr>gconv_model = gm, loss_fcn = CrossEntropyLoss, nc_training = True\<rparr>"

definition NodeClassification_train ::
  "bool \<Rightarrow> ('w, 'act) NodeClassification \<Rightarrow> ('w, 'act) NodeClassification" where
  "NodeClassification_train mode self =
     self\<lparr>nc_training := mode, gconv_model := GraphSAGEModel_train mode (gconv_model self)\<rparr>"

definition NodeClassification_eval ::
  "('w, 'act) NodeClassification \<Rightarrow> ('w, 'act) NodeClassification" where
  "NodeClassification_eval self = NodeClassification_train False self"

text \<open>
  \<^verbatim>\<open>NodeClassification.forward(self, g, features, train_idx)\<close>. The \<^verbatim>\<open>labels\<close> it slices
  are the notebook's global label tensor, an argument here.
\<close>

definition NodeClassification_forward ::
  "('w, 'act, 'g) conv_fn \<Rightarrow> int list \<Rightarrow> ('w, 'act) NodeClassification \<Rightarrow> 'g
    \<Rightarrow> real list list \<Rightarrow> int list \<Rightarrow> error + real" where
  "NodeClassification_forward conv labels self g features train_idx =
     bind_err (GraphSAGEModel_forward conv (gconv_model self) g features) (\<lambda>logits.
     bind_err (index_select logits train_idx) (\<lambda>sliced.
     bind_err (index_select labels train_idx) (\<lambda>train_labels.
     loss_fcn self sliced train_labels)))"

text \<open>
  \<^verbatim>\<open>NCEvaluate(model, g, features, labels, test_idx)\<close>. \<^verbatim>\<open>model.eval()\<close> changes the
  model in place, so the model after the call is returned beside the result.
  \<^verbatim>\<open>torch.no_grad()\<close> switches the recording of gradients off and changes no value.
  \<open>sliced\<close> is the \<^verbatim>\<open>logits\<close> that the source assigns anew, \<^verbatim>\<open>logits[test_idx]\<close>; it
  has the columns of the model's output.
  The last line divides a float by \<^verbatim>\<open>len(test_labels)\<close>, which raises when that is 0.
\<close>

definition NCEvaluate ::
  "('w, 'act, 'g) conv_fn \<Rightarrow> ('w, 'act) NodeClassification \<Rightarrow> 'g \<Rightarrow> real list list
    \<Rightarrow> int list \<Rightarrow> int list \<Rightarrow> ('w, 'act) NodeClassification \<times> (error + real)" where
  "NCEvaluate conv model g features labels test_idx =
     (let model' = NodeClassification_eval model
      in (model',
          bind_err (GraphSAGEModel_forward conv (gconv_model model') g features) (\<lambda>logits.
          bind_err (index_select logits test_idx) (\<lambda>sliced.
          bind_err (index_select labels test_idx) (\<lambda>test_labels.
          bind_err (torch_max_indices (n_columns logits) sliced) (\<lambda>indices.
          let correct = sum_eq indices test_labels
          in if length test_labels = 0 then Inl ZeroDivisionError
             else Inr (real_of_int correct * 1.0 / real (length test_labels))))))))"

section \<open>Notions of the specification\<close>

text \<open>
  The entries of a node-level array at the indices of an index set, in the set's order.
\<close>

definition rows_at :: "'a list \<Rightarrow> int list \<Rightarrow> 'a list" where
  "rows_at t idx = map (\<lambda>i. t ! nat i) idx"

text \<open>
  An index set over \<open>n\<close> nodes: every index lies in \<open>[0, n)\<close>.
\<close>

definition index_set :: "nat \<Rightarrow> int list \<Rightarrow> bool" where
  "index_set n idx \<longleftrightarrow> list_all (\<lambda>i. 0 \<le> i \<and> i < int n) idx"

text \<open>
  Class \<open>c\<close> is the arg-max of a row of scores: it is a class of the row, no score is
  larger than its own, and every class before it has a smaller score.
\<close>

definition top1 :: "real list \<Rightarrow> int \<Rightarrow> bool" where
  "top1 row c \<longleftrightarrow>
     0 \<le> c \<and> c < int (length row) \<and> list_all (\<lambda>x. x \<le> row ! nat c) row
       \<and> list_all (\<lambda>x. x < row ! nat c) (take (nat c) row)"

text \<open>
  Top-1 accuracy over an index set: the number of its indices whose row has the label as
  its arg-max, divided by the number of indices.
\<close>

definition top1_accuracy :: "real list list \<Rightarrow> int list \<Rightarrow> int list \<Rightarrow> real" where
  "top1_accuracy out labels idx =
     real (length (filter (\<lambda>i. top1 (out ! nat i) (labels ! nat i)) idx)) / real (length idx)"

text \<open>
  What \<^verbatim>\<open>SAGEConv\<close> was constructed with: input dimension, output dimension, aggregator
  type, dropout rate and activation.
\<close>

definition layer_config ::
  "('w, 'act) SAGEConv \<Rightarrow> int \<times> int \<times> string \<times> real \<times> 'act option" where
  "layer_config layer =
     (sc_in_feats layer, sc_out_feats layer, sc_aggregator_type layer, sc_feat_drop layer,
      sc_activation layer)"

text \<open>
  Identical layers: any two layers of the list have the same input dimension, the same
  output dimension and the same activation.
\<close>

definition identical_layers :: "('w, 'act) SAGEConv list \<Rightarrow> bool" where
  "identical_layers ls \<longleftrightarrow>
     list_all (\<lambda>a. list_all (\<lambda>b. sc_in_feats a = sc_in_feats b
        \<and> sc_out_feats a = sc_out_feats b \<and> sc_activation a = sc_activation b) ls) ls"

section \<open>A small instance\<close>

text \<open>
  Three nodes, two classes and a two-layer model (three layers, with the parameters 0, 1
  and 2) whose layers add their parameter to every entry of their input: the instance
  at which the theorems below are instantiated.
\<close>

definition example_conv :: "(nat, string, unit) conv_fn" where
  "example_conv layer g h = Inr (map (map (\<lambda>x. x + real (sc_params layer))) h)"

definition example_model :: "(nat, string) NodeClassification" where
  "example_model =
     NodeClassification_init
       (GraphSAGEModel_init (\<lambda>k. k) 2 64 2 2 (Some ''relu'') (1/2) ''gcn'') 64 2"

definition example_features :: "real list list" where
  "example_features = [[1, 2], [3, 1], [0, 0]]"

definition example_labels :: "int list" where
  "example_labels = [1, 1, 0]"

definition example_output :: "real list list" where
  "example_output = [[4, 5], [6, 4], [3, 3]]"

section \<open>The small instance, run\<close>

lemma example_forward_train:
  "GraphSAGEModel_forward example_conv (gconv_model example_model) () example_features
     = Inr example_output"
  by (simp add: GraphSAGEModel_forward_def example_model_def NodeClassification_init_def
      GraphSAGEModel_init_def SAGEConv_init_def range_py_def Let_def example_conv_def
      bind_err_def example_features_def example_output_def)

lemma example_forward_eval:
  "GraphSAGEModel_forward example_conv (gconv_model (NodeClassification_eval example_model)) ()
     example_features = Inr example_output"
  by (simp add: GraphSAGEModel_forward_def NodeClassification_eval_def
      NodeClassification_train_def GraphSAGEModel_train_def SAGEConv_train_def
      example_model_def NodeClassification_init_def GraphSAGEModel_init_def SAGEConv_init_def
      range_py_def Let_def example_conv_def bind_err_def example_features_def
      example_output_def)

lemma example_loss_fcn:
  "loss_fcn example_model = CrossEntropyLoss"
  by (simp add: example_model_def NodeClassification_init_def)

section \<open>Layer count\<close>

lemma length_fold_append:
  "length (fold (\<lambda>i ls. ls @ [f ls]) xs acc) = length acc + length xs"
  by (induction xs arbitrary: acc) simp_all

text \<open>
  C3. For every configured layer count \<open>n_layers \<ge> 1\<close>, the layer list of the model that
  \<^verbatim>\<open>GraphSAGEModel.__init__\<close> assembles holds exactly \<open>n_layers + 1\<close> aggregation layers:
  the input layer, \<open>n_layers - 1\<close> hidden layers and the output layer.
\<close>

theorem GraphSAGEModel_init_layer_count:
  assumes "1 \<le> n_layers"
  shows "int (length (layers (GraphSAGEModel_init init_w in_feats n_hidden out_dim n_layers
            activation dropout aggregator_type))) = n_layers + 1"
  using assms by (simp add: GraphSAGEModel_init_def Let_def length_fold_append range_py_def)

theorem GraphSAGEModel_init_layer_count_witness:
  "int (length (layers (GraphSAGEModel_init (\<lambda>k. k) 500 64 3 2 (Some ''relu'') (1/2) ''gcn'')))
     = 2 + 1"
  using GraphSAGEModel_init_layer_count [of 2 "\<lambda>k. k" 500 64 3 "Some ''relu''" "1/2" "''gcn''"]
  by simp


section \<open>Slicing by an index set\<close>

lemma map_err_Inr:
  "(\<And>x. x \<in> set xs \<Longrightarrow> f x = Inr (h x)) \<Longrightarrow> map_err f xs = Inr (map h xs)"
  by (induction xs) (simp_all add: bind_err_def)

lemma map_err_length:
  "map_err f xs = Inr ys \<Longrightarrow> length ys = length xs"
proof (induction xs arbitrary: ys)
  case Nil
  then show ?case by simp
next
  case (Cons x xs)
  then show ?case
    by (auto simp: bind_err_def split: sum.splits)
qed

lemma index_set_iff:
  "index_set n idx \<longleftrightarrow> (\<forall>i \<in> set idx. 0 \<le> i \<and> i < int n)"
  by (simp add: index_set_def list_all_iff)

lemma index_select_in_bounds:
  assumes "index_set (length t) idx"
  shows "index_select t idx = Inr (rows_at t idx)"
  unfolding index_select_def rows_at_def
proof (rule map_err_Inr)
  fix i assume "i \<in> set idx"
  with assms have "0 \<le> i \<and> i < int (length t)"
    by (simp add: index_set_iff)
  then show "getitem t i = Inr (t ! nat i)"
    by (simp add: getitem_def)
qed

lemma length_rows_at:
  "length (rows_at t idx) = length idx"
  by (simp add: rows_at_def)

lemma rows_at_Nil_iff:
  "rows_at t idx = [] \<longleftrightarrow> idx = []"
  by (simp add: rows_at_def)

lemma index_select_length:
  "index_select t idx = Inr ys \<Longrightarrow> length ys = length idx"
  unfolding index_select_def by (rule map_err_length)

section \<open>The arg-max of a row\<close>

lemma argmax_from_sound:
  assumes "length pre = i" and "best < i" and "pre ! best = bv"
    and "\<forall>j < i. pre ! j \<le> bv" and "\<forall>j < best. pre ! j < bv"
  shows "argmax_from best bv i xs < length (pre @ xs)
    \<and> (\<forall>j < length (pre @ xs). (pre @ xs) ! j \<le> (pre @ xs) ! argmax_from best bv i xs)
    \<and> (\<forall>j < argmax_from best bv i xs. (pre @ xs) ! j < (pre @ xs) ! argmax_from best bv i xs)"
  using assms
proof (induction xs arbitrary: pre i best bv)
  case Nil
  then show ?case by simp
next
  case (Cons x xs)
  let ?pre = "pre @ [x]"
  have len: "length ?pre = Suc i"
    using Cons.prems(1) by simp
  show ?case
  proof (cases "bv < x")
    case True
    have a: "i < Suc i" by simp
    have b: "?pre ! i = x"
      using Cons.prems(1) by (simp add: nth_append)
    have c: "\<forall>j < Suc i. ?pre ! j \<le> x"
      using Cons.prems(1,4) True by (auto simp: nth_append less_Suc_eq)
    have d: "\<forall>j < i. ?pre ! j < x"
      using Cons.prems(1,4) True by (auto simp: nth_append)
    from Cons.IH [OF len a b c d] True show ?thesis by simp
  next
    case False
    have a: "best < Suc i"
      using Cons.prems(2) by simp
    have b: "?pre ! best = bv"
      using Cons.prems(1,2,3) by (simp add: nth_append)
    have c: "\<forall>j < Suc i. ?pre ! j \<le> bv"
      using Cons.prems(1,4) False by (auto simp: nth_append less_Suc_eq)
    have d: "\<forall>j < best. ?pre ! j < bv"
      using Cons.prems(1,2,5) by (auto simp: nth_append)
    from Cons.IH [OF len a b c d] False show ?thesis by simp
  qed
qed

lemma top1_iff:
  "top1 row c \<longleftrightarrow>
     0 \<le> c \<and> nat c < length row \<and> (\<forall>j < length row. row ! j \<le> row ! nat c)
       \<and> (\<forall>j < nat c. row ! j < row ! nat c)"
  by (auto simp: top1_def list_all_length)

lemma top1_unique:
  assumes "top1 row c" and "top1 row d"
  shows "c = d"
proof (rule ccontr)
  assume ne: "c \<noteq> d"
  from assms have c: "nat c < length row" "\<forall>j < length row. row ! j \<le> row ! nat c"
      "\<forall>j < nat c. row ! j < row ! nat c" "0 \<le> c"
    and d: "nat d < length row" "\<forall>j < length row. row ! j \<le> row ! nat d"
      "\<forall>j < nat d. row ! j < row ! nat d" "0 \<le> d"
    by (simp_all add: top1_iff)
  from ne c(4) d(4) consider "nat c < nat d" | "nat d < nat c"
    by linarith
  then show False
  proof cases
    case 1
    with d(3) have "row ! nat c < row ! nat d" by simp
    moreover from c(2) d(1) have "row ! nat d \<le> row ! nat c" by simp
    ultimately show False by simp
  next
    case 2
    with c(3) have "row ! nat d < row ! nat c" by simp
    moreover from d(2) c(1) have "row ! nat c \<le> row ! nat d" by simp
    ultimately show False by simp
  qed
qed

lemma argmax_row_top1:
  assumes "row \<noteq> []"
  shows "\<exists>k. argmax_row row = Inr k \<and> top1 row k"
proof -
  from assms obtain x xs where row: "row = x # xs"
    by (cases row) auto
  have "argmax_from 0 x 1 xs < length ([x] @ xs)
    \<and> (\<forall>j < length ([x] @ xs). ([x] @ xs) ! j \<le> ([x] @ xs) ! argmax_from 0 x 1 xs)
    \<and> (\<forall>j < argmax_from 0 x 1 xs. ([x] @ xs) ! j < ([x] @ xs) ! argmax_from 0 x 1 xs)"
    by (rule argmax_from_sound) simp_all
  then have "top1 row (int (argmax_from 0 x 1 xs))"
    by (simp add: top1_iff row)
  then show ?thesis
    by (simp add: argmax_row_def row)
qed

lemma argmax_row_eq_iff:
  assumes "row \<noteq> []" and "argmax_row row = Inr k"
  shows "k = c \<longleftrightarrow> top1 row c"
  using argmax_row_top1 [OF assms(1)] assms(2) top1_unique by auto


section \<open>Evaluation\<close>

lemma sum_eq_map:
  "sum_eq (map f xs) (map h xs) = int (length (filter (\<lambda>x. f x = h x) xs))"
  by (induction xs) (simp_all add: sum_eq_def)

lemma sum_eq_bounds:
  "0 \<le> sum_eq a b \<and> sum_eq a b \<le> int (length b)"
proof -
  have "length (filter (\<lambda>(x, y). x = y) (zip a b)) \<le> length (zip a b)"
    by (rule length_filter_le)
  also have "\<dots> \<le> length b"
    by simp
  finally show ?thesis
    by (simp add: sum_eq_def)
qed

lemma n_columns_zero_iff:
  "n_columns t = 0 \<longleftrightarrow> list_all (\<lambda>row. row = []) t"
  by (induction t) (simp_all add: n_columns_def)

lemma n_columns_selected:
  assumes "idx \<noteq> []" and "index_set (length out) idx"
    and "list_all (\<lambda>i. out ! nat i \<noteq> []) idx"
  shows "0 < n_columns out"
proof -
  from assms(1) obtain i where i: "i \<in> set idx"
    by (cases idx) auto
  with assms(2) have "nat i < length out"
    by (auto simp: index_set_iff)
  then have "out ! nat i \<in> set out"
    by simp
  moreover from i assms(3) have "out ! nat i \<noteq> []"
    by (simp add: list_all_iff)
  ultimately have "\<not> list_all (\<lambda>row. row = []) out"
    by (auto simp: list_all_iff)
  then show ?thesis
    by (simp add: n_columns_zero_iff [symmetric])
qed

lemma torch_max_indices_rows:
  assumes "list_all (\<lambda>i. out ! nat i \<noteq> []) idx" and "0 < ncols"
  shows "torch_max_indices ncols (rows_at out idx)
    = Inr (map (\<lambda>i. projr (argmax_row (out ! nat i))) idx)"
proof -
  have "map_err argmax_row (rows_at out idx)
      = Inr (map (\<lambda>row. projr (argmax_row row)) (rows_at out idx))"
  proof (rule map_err_Inr)
    fix row assume "row \<in> set (rows_at out idx)"
    with assms have "row \<noteq> []"
      by (auto simp: rows_at_def list_all_iff)
    from argmax_row_top1 [OF this] show "argmax_row row = Inr (projr (argmax_row row))"
      by auto
  qed
  with assms(2) show ?thesis
    by (simp add: torch_max_indices_def rows_at_def comp_def)
qed

lemma NCEvaluate_counts:
  assumes out: "GraphSAGEModel_forward conv (gconv_model (NodeClassification_eval model))
        g features = Inr out"
    and ne: "test_idx \<noteq> []"
    and io: "index_set (length out) test_idx"
    and il: "index_set (length labels) test_idx"
    and rows: "list_all (\<lambda>i. out ! nat i \<noteq> []) test_idx"
  shows "snd (NCEvaluate conv model g features labels test_idx)
    = Inr (real (length (filter (\<lambda>i. projr (argmax_row (out ! nat i)) = labels ! nat i)
              test_idx)) / real (length test_idx))"
proof -
  have "sum_eq (map (\<lambda>i. projr (argmax_row (out ! nat i))) test_idx) (rows_at labels test_idx)
      = int (length (filter (\<lambda>i. projr (argmax_row (out ! nat i)) = labels ! nat i) test_idx))"
    unfolding rows_at_def by (rule sum_eq_map)
  moreover have cols: "0 < n_columns out"
    using ne io rows by (rule n_columns_selected)
  ultimately show ?thesis
    using ne
    by (simp add: NCEvaluate_def Let_def out bind_err_def index_select_in_bounds [OF io]
        index_select_in_bounds [OF il] torch_max_indices_rows [OF rows cols] length_rows_at
        rows_at_Nil_iff)
qed

lemma NCEvaluate_Inr_range:
  assumes "snd (NCEvaluate conv model g features labels test_idx) = Inr acc"
  shows "0 \<le> acc \<and> acc \<le> 1"
proof -
  from assms obtain a b where b: "length b \<noteq> 0"
    and acc: "acc = real_of_int (sum_eq a b) / real (length b)"
    by (auto simp: NCEvaluate_def Let_def bind_err_def split: sum.splits if_splits)
  from sum_eq_bounds [of a b] have "0 \<le> real_of_int (sum_eq a b)"
    and "real_of_int (sum_eq a b) \<le> real (length b)"
    by (simp_all add: of_int_le_iff [symmetric] del: of_int_le_iff)
  with b show ?thesis
    by (simp add: acc)
qed

text \<open>
  C1. For a non-empty index set over the nodes (the model's output in evaluation mode
  has a row, with at least one class, and the label vector an entry for each of its
  indices), \<^verbatim>\<open>NCEvaluate\<close> returns the top-1 accuracy over the index set: the number of
  indices whose output row has its arg-max at the node's label, divided by the number of
  indices.
\<close>

theorem NCEvaluate_top1_accuracy:
  assumes "GraphSAGEModel_forward conv (gconv_model (NodeClassification_eval model))
        g features = Inr out"
    and "test_idx \<noteq> []"
    and "index_set (length out) test_idx"
    and "index_set (length labels) test_idx"
    and "list_all (\<lambda>i. out ! nat i \<noteq> []) test_idx"
  shows "snd (NCEvaluate conv model g features labels test_idx)
    = Inr (top1_accuracy out labels test_idx)"
proof -
  have "filter (\<lambda>i. projr (argmax_row (out ! nat i)) = labels ! nat i) test_idx
      = filter (\<lambda>i. top1 (out ! nat i) (labels ! nat i)) test_idx"
  proof (rule filter_cong [OF refl])
    fix i assume "i \<in> set test_idx"
    with assms(5) have row: "out ! nat i \<noteq> []"
      by (simp add: list_all_iff)
    from argmax_row_top1 [OF row] obtain k where k: "argmax_row (out ! nat i) = Inr k"
      by auto
    from argmax_row_eq_iff [OF row k, of "labels ! nat i"] k
    show "(projr (argmax_row (out ! nat i)) = labels ! nat i)
        = top1 (out ! nat i) (labels ! nat i)"
      by simp
  qed
  with NCEvaluate_counts [OF assms] show ?thesis
    by (simp add: top1_accuracy_def)
qed

theorem NCEvaluate_top1_accuracy_witness:
  "snd (NCEvaluate example_conv example_model () example_features example_labels [0, 1, 2])
     = Inr (2 / 3)"
proof -
  have "snd (NCEvaluate example_conv example_model () example_features example_labels [0, 1, 2])
      = Inr (top1_accuracy example_output example_labels [0, 1, 2])"
    by (rule NCEvaluate_top1_accuracy [OF example_forward_eval])
      (simp_all add: index_set_def example_output_def example_labels_def)
  then show ?thesis
    by (simp add: top1_accuracy_def top1_def example_output_def example_labels_def)
qed


text \<open>
  C4. Every accuracy that \<^verbatim>\<open>NCEvaluate\<close> returns lies in the closed interval from 0
  to 1, for every graph, feature matrix, label vector and index set; and for a non-empty
  index set over the nodes it does return an accuracy.
\<close>

theorem NCEvaluate_accuracy_in_unit_interval:
  "(\<forall>acc. snd (NCEvaluate conv model g features labels test_idx) = Inr acc
      \<longrightarrow> 0 \<le> acc \<and> acc \<le> 1)
   \<and> (GraphSAGEModel_forward conv (gconv_model (NodeClassification_eval model)) g features
         = Inr out
       \<and> test_idx \<noteq> [] \<and> index_set (length out) test_idx
       \<and> index_set (length labels) test_idx \<and> list_all (\<lambda>i. out ! nat i \<noteq> []) test_idx
      \<longrightarrow> (\<exists>acc. snd (NCEvaluate conv model g features labels test_idx) = Inr acc))"
proof (intro conjI allI impI)
  fix acc
  assume "snd (NCEvaluate conv model g features labels test_idx) = Inr acc"
  then have "0 \<le> acc \<and> acc \<le> 1"
    by (rule NCEvaluate_Inr_range)
  then show "0 \<le> acc" and "acc \<le> 1"
    by simp_all
next
  assume "GraphSAGEModel_forward conv (gconv_model (NodeClassification_eval model)) g features
        = Inr out
      \<and> test_idx \<noteq> [] \<and> index_set (length out) test_idx
      \<and> index_set (length labels) test_idx \<and> list_all (\<lambda>i. out ! nat i \<noteq> []) test_idx"
  then show "\<exists>acc. snd (NCEvaluate conv model g features labels test_idx) = Inr acc"
    using NCEvaluate_counts [of conv model g features out test_idx labels] by blast
qed

theorem NCEvaluate_accuracy_in_unit_interval_witness:
  "\<exists>acc. snd (NCEvaluate example_conv example_model () example_features example_labels [2, 1])
      = Inr acc \<and> 0 \<le> acc \<and> acc \<le> 1"
proof -
  have "index_set (length example_output) [2, 1] \<and> index_set (length example_labels) [2, 1]
      \<and> list_all (\<lambda>i. example_output ! nat i \<noteq> []) [2, 1]"
    by (simp add: index_set_def example_output_def example_labels_def)
  with example_forward_eval
    NCEvaluate_accuracy_in_unit_interval [of example_conv example_model "()" example_features
      example_labels "[2, 1]" example_output]
  show ?thesis
    by blast
qed

lemma NCEvaluate_empty_no_column:
  assumes "GraphSAGEModel_forward conv (gconv_model (NodeClassification_eval model))
        g features = Inr out"
    and "n_columns out = 0"
  shows "snd (NCEvaluate conv model g features labels []) = Inl IndexError"
  using assms
  by (simp add: NCEvaluate_def Let_def bind_err_def index_select_def torch_max_indices_def)

text \<open>
  C10. On the empty index set \<^verbatim>\<open>NCEvaluate\<close> returns no accuracy, whatever the
  model, graph, features and labels are. Where the model produces its output and the
  output has a class column, the failure is the division by the length 0 of the sliced
  label vector. (An output with no class column fails before, in \<^verbatim>\<open>torch.max\<close>.)
\<close>

theorem NCEvaluate_empty_index_set:
  "(\<forall>acc. snd (NCEvaluate conv model g features labels []) \<noteq> Inr acc)
    \<and> (\<forall>out. GraphSAGEModel_forward conv (gconv_model (NodeClassification_eval model))
            g features = Inr out \<and> 0 < n_columns out
          \<longrightarrow> snd (NCEvaluate conv model g features labels []) = Inl ZeroDivisionError)"
  by (auto simp: NCEvaluate_def Let_def bind_err_def index_select_def torch_max_indices_def
      split: sum.splits if_splits)

theorem NCEvaluate_empty_index_set_witness:
  "snd (NCEvaluate example_conv example_model () example_features example_labels [])
     = Inl ZeroDivisionError"
proof -
  have "0 < n_columns example_output"
    by (simp add: n_columns_def example_output_def)
  with NCEvaluate_empty_index_set [of example_conv example_model "()" example_features
      example_labels] example_forward_eval
  show ?thesis
    by blast
qed

section \<open>Evaluation and the parameters\<close>

lemma GraphSAGEModel_train_params:
  "map sc_params (layers (GraphSAGEModel_train mode gm)) = map sc_params (layers gm)"
  by (simp add: GraphSAGEModel_train_def SAGEConv_train_def comp_def)

lemma NCEvaluate_model:
  "fst (NCEvaluate conv model g features labels test_idx) = NodeClassification_eval model"
  by (simp add: NCEvaluate_def Let_def)

text \<open>
  C5. \<^verbatim>\<open>NCEvaluate\<close> leaves every parameter of the model as it was: the parameters of
  each layer after the call are the parameters before it, whatever the call returns or
  raises. (What the call changes is the mode flag of the modules.)
\<close>

theorem NCEvaluate_keeps_parameters:
  "map sc_params (layers (gconv_model (fst (NCEvaluate conv model g features labels test_idx))))
     = map sc_params (layers (gconv_model model))"
  by (simp add: NCEvaluate_model NodeClassification_eval_def NodeClassification_train_def
      GraphSAGEModel_train_params)

lemma NCEvaluate_clears_mode:
  "list_all (\<lambda>layer. \<not> sc_training layer)
     (layers (gconv_model (fst (NCEvaluate conv model g features labels test_idx))))"
  by (simp add: NCEvaluate_model NodeClassification_eval_def NodeClassification_train_def
      GraphSAGEModel_train_def SAGEConv_train_def list_all_iff)


section \<open>The loss\<close>

lemma NodeClassification_forward_sliced:
  assumes "GraphSAGEModel_forward conv (gconv_model self) g features = Inr out"
    and "index_set (length out) train_idx"
    and "index_set (length labels) train_idx"
  shows "NodeClassification_forward conv labels self g features train_idx
    = loss_fcn self (rows_at out train_idx) (rows_at labels train_idx)"
  by (simp add: NodeClassification_forward_def assms(1) bind_err_def
      index_select_in_bounds [OF assms(2)] index_select_in_bounds [OF assms(3)])

lemma NodeClassification_init_loss_fcn:
  "loss_fcn (NodeClassification_init gm n_hidden n_classes) = CrossEntropyLoss"
  by (simp add: NodeClassification_init_def)

lemma NodeClassification_train_loss_fcn:
  "loss_fcn (NodeClassification_train mode self) = loss_fcn self"
  by (simp add: NodeClassification_train_def)

text \<open>
  C2. For an index set over the nodes, \<^verbatim>\<open>NodeClassification.forward\<close> returns exactly
  the cross-entropy loss of the model's output rows at the indices of the set and the
  ground-truth labels at the same indices.
\<close>

theorem NodeClassification_forward_is_cross_entropy:
  assumes "loss_fcn self = CrossEntropyLoss"
    and "GraphSAGEModel_forward conv (gconv_model self) g features = Inr out"
    and "index_set (length out) train_idx"
    and "index_set (length labels) train_idx"
  shows "NodeClassification_forward conv labels self g features train_idx
    = CrossEntropyLoss (rows_at out train_idx) (rows_at labels train_idx)"
  using NodeClassification_forward_sliced [OF assms(2,3,4)] assms(1) by simp

theorem NodeClassification_forward_is_cross_entropy_witness:
  "NodeClassification_forward example_conv example_labels example_model () example_features [0, 2]
     = CrossEntropyLoss [[4, 5], [3, 3]] [1, 0]"
proof -
  have "NodeClassification_forward example_conv example_labels example_model ()
      example_features [0, 2]
      = CrossEntropyLoss (rows_at example_output [0, 2]) (rows_at example_labels [0, 2])"
    by (rule NodeClassification_forward_is_cross_entropy
        [OF example_loss_fcn example_forward_train])
      (simp_all add: index_set_def example_output_def example_labels_def)
  then show ?thesis
    by (simp add: rows_at_def example_output_def example_labels_def)
qed

text \<open>
  C9. The \<^verbatim>\<open>n_hidden\<close> and \<^verbatim>\<open>n_classes\<close> arguments of
  \<^verbatim>\<open>NodeClassification.__init__\<close> are not stored: two instances built from the same
  embedding model are the same whatever the two arguments are, and \<^verbatim>\<open>forward\<close>
  returns the same on every input.
\<close>

theorem NodeClassification_init_ignores_sizes:
  "NodeClassification_init gm n_hidden n_classes = NodeClassification_init gm n_hidden' n_classes'
    \<and> NodeClassification_forward conv labels (NodeClassification_init gm n_hidden n_classes)
          g features train_idx
      = NodeClassification_forward conv labels (NodeClassification_init gm n_hidden' n_classes')
          g features train_idx"
  by (simp add: NodeClassification_init_def)

section \<open>The loss is not negative\<close>

lemma sum_list_exp_pos:
  "row \<noteq> [] \<Longrightarrow> 0 < sum_list (map exp (row :: real list))"
proof (induction row)
  case Nil
  then show ?case by simp
next
  case (Cons x xs)
  have "0 \<le> sum_list (map exp xs)"
    by (rule sum_list_nonneg) auto
  moreover have "0 < exp x"
    by simp
  ultimately have "0 < exp x + sum_list (map exp xs)"
    by (rule add_pos_nonneg [rotated])
  then show ?case
    by simp
qed

lemma exp_nth_le_sum_list:
  "k < length row \<Longrightarrow> exp (row ! k) \<le> sum_list (map exp (row :: real list))"
proof (induction row arbitrary: k)
  case Nil
  then show ?case by simp
next
  case (Cons x xs)
  have tl: "0 \<le> sum_list (map exp xs)"
    by (rule sum_list_nonneg) auto
  show ?case
  proof (cases k)
    case 0
    with tl show ?thesis by simp
  next
    case (Suc j)
    with Cons.prems have "j < length xs" by simp
    from Cons.IH [OF this] have "exp (xs ! j) \<le> sum_list (map exp xs)" .
    moreover have "0 \<le> exp x" by simp
    ultimately have "exp (xs ! j) \<le> exp x + sum_list (map exp xs)"
      by linarith
    then show ?thesis
      using Suc by simp
  qed
qed

lemma nll_row_nonneg:
  assumes "0 \<le> t" and "t < int (length row)"
  shows "nll_row row t = Inr (- ln (exp (row ! nat t) / sum_list (map exp row)))
    \<and> 0 \<le> - ln (exp (row ! nat t) / sum_list (map exp row))"
proof -
  from assms have k: "nat t < length row"
    by simp
  then have "row \<noteq> []"
    by auto
  then have pos: "0 < sum_list (map exp row)"
    by (rule sum_list_exp_pos)
  have le: "exp (row ! nat t) \<le> sum_list (map exp row)"
    using k by (rule exp_nth_le_sum_list)
  have "0 < exp (row ! nat t) / sum_list (map exp row)"
    using pos by simp
  moreover have "exp (row ! nat t) / sum_list (map exp row) \<le> 1"
    using pos le by simp
  ultimately have "ln (exp (row ! nat t) / sum_list (map exp row)) \<le> 0"
    by (simp add: ln_le_zero_iff)
  with assms show ?thesis
    by (simp add: nll_row_def)
qed

lemma map_err_set:
  "map_err f xs = Inr ys \<Longrightarrow> y \<in> set ys \<Longrightarrow> \<exists>x \<in> set xs. f x = Inr y"
proof (induction xs arbitrary: ys)
  case Nil
  then show ?case by simp
next
  case (Cons x xs)
  from Cons.prems(1) obtain z zs where z: "f x = Inr z" and zs: "map_err f xs = Inr zs"
    and ys: "ys = z # zs"
    by (auto simp: bind_err_def split: sum.splits)
  from Cons.prems(2) ys consider "y = z" | "y \<in> set zs"
    by auto
  then show ?case
  proof cases
    case 1
    with z show ?thesis by simp
  next
    case 2
    from Cons.IH [OF zs 2] show ?thesis by auto
  qed
qed

lemma CrossEntropyLoss_Inr_nonneg:
  assumes "CrossEntropyLoss inp target = Inr loss"
  shows "0 \<le> loss"
proof -
  from assms obtain losses
    where each: "map_err (\<lambda>(row, t). nll_row row t) (zip inp target) = Inr losses"
      and loss: "loss = sum_list losses / real (length losses)"
    by (auto simp: CrossEntropyLoss_def bind_err_def split: if_splits sum.splits)
  have "0 \<le> sum_list losses"
  proof (rule sum_list_nonneg)
    fix l assume "l \<in> set losses"
    from map_err_set [OF each this] obtain row t where "nll_row row t = Inr l"
      by auto
    then have "0 \<le> t \<and> t < int (length row)" and "nll_row row t = Inr l"
      by (auto simp: nll_row_def split: if_splits)
    with nll_row_nonneg [of t row] show "0 \<le> l"
      by simp
  qed
  then show ?thesis
    by (simp add: loss)
qed

lemma CrossEntropyLoss_returns:
  assumes len: "length inp = length target"
    and ne: "inp \<noteq> []"
    and cls: "list_all (\<lambda>(row, t). 0 \<le> t \<and> t < int (length row)) (zip inp target)"
  shows "\<exists>loss. CrossEntropyLoss inp target = Inr loss"
proof -
  let ?h = "\<lambda>(row, t). - ln (exp (row ! nat t) / sum_list (map exp row))"
  have each: "map_err (\<lambda>(row, t). nll_row row t) (zip inp target) = Inr (map ?h (zip inp target))"
  proof (rule map_err_Inr)
    fix p assume "p \<in> set (zip inp target)"
    with cls have "0 \<le> snd p \<and> snd p < int (length (fst p))"
      by (auto simp: list_all_iff)
    then show "(case p of (row, t) \<Rightarrow> nll_row row t) = Inr (?h p)"
      using nll_row_nonneg [of "snd p" "fst p"] by (simp add: case_prod_beta)
  qed
  from len ne have "zip inp target \<noteq> []"
    by (cases inp; cases target) simp_all
  with len each show ?thesis
    by (simp add: CrossEntropyLoss_def bind_err_def)
qed

lemma NodeClassification_forward_Inr:
  assumes "NodeClassification_forward conv labels self g features train_idx = Inr loss"
  shows "\<exists>a b. loss_fcn self a b = Inr loss"
  using assms
  by (auto simp: NodeClassification_forward_def bind_err_def split: sum.splits)

text \<open>
  C8. Every loss that \<^verbatim>\<open>NodeClassification.forward\<close> returns is non-negative, for
  every graph, feature matrix, label vector and index set; and for a non-empty training
  index set over the nodes whose labels are classes of the model's output it does return
  a loss.
\<close>

theorem NodeClassification_forward_nonneg:
  assumes "loss_fcn self = CrossEntropyLoss"
  shows "(\<forall>loss. NodeClassification_forward conv labels self g features train_idx = Inr loss
      \<longrightarrow> 0 \<le> loss)
   \<and> (GraphSAGEModel_forward conv (gconv_model self) g features = Inr out
       \<and> train_idx \<noteq> [] \<and> index_set (length out) train_idx
       \<and> index_set (length labels) train_idx
       \<and> list_all (\<lambda>i. 0 \<le> labels ! nat i \<and> labels ! nat i < int (length (out ! nat i)))
           train_idx
      \<longrightarrow> (\<exists>loss. NodeClassification_forward conv labels self g features train_idx
            = Inr loss))"
proof (intro conjI allI impI)
  fix loss
  assume "NodeClassification_forward conv labels self g features train_idx = Inr loss"
  from NodeClassification_forward_Inr [OF this] assms
  obtain a b where "CrossEntropyLoss a b = Inr loss"
    by auto
  then show "0 \<le> loss"
    by (rule CrossEntropyLoss_Inr_nonneg)
next
  assume a: "GraphSAGEModel_forward conv (gconv_model self) g features = Inr out
      \<and> train_idx \<noteq> [] \<and> index_set (length out) train_idx
      \<and> index_set (length labels) train_idx
      \<and> list_all (\<lambda>i. 0 \<le> labels ! nat i \<and> labels ! nat i < int (length (out ! nat i)))
          train_idx"
  have "zip (rows_at out train_idx) (rows_at labels train_idx)
      = map (\<lambda>i. (out ! nat i, labels ! nat i)) train_idx"
    unfolding rows_at_def by (induction train_idx) simp_all
  with a have cls: "list_all (\<lambda>(row, t). 0 \<le> t \<and> t < int (length row))
      (zip (rows_at out train_idx) (rows_at labels train_idx))"
    by (simp add: list_all_iff)
  have "\<exists>loss. CrossEntropyLoss (rows_at out train_idx) (rows_at labels train_idx) = Inr loss"
    using a by (intro CrossEntropyLoss_returns cls) (simp_all add: rows_at_def)
  moreover from a have "NodeClassification_forward conv labels self g features train_idx
      = loss_fcn self (rows_at out train_idx) (rows_at labels train_idx)"
    by (intro NodeClassification_forward_sliced) simp_all
  ultimately show "\<exists>loss. NodeClassification_forward conv labels self g features train_idx
      = Inr loss"
    using assms by simp
qed

theorem NodeClassification_forward_nonneg_witness:
  "\<exists>loss. NodeClassification_forward example_conv example_labels example_model ()
      example_features [0, 2] = Inr loss \<and> 0 \<le> loss"
proof -
  have "index_set (length example_output) [0, 2] \<and> index_set (length example_labels) [0, 2]
      \<and> list_all (\<lambda>i. 0 \<le> example_labels ! nat i
            \<and> example_labels ! nat i < int (length (example_output ! nat i))) [0, 2]"
    by (simp add: index_set_def example_output_def example_labels_def)
  with example_forward_train
    NodeClassification_forward_nonneg [OF example_loss_fcn, of example_conv example_labels
      "()" example_features "[0, 2]" example_output]
  show ?thesis
    by blast
qed

section \<open>The layers of the assembled model\<close>

lemma layer_config_fold_append:
  "map layer_config
     (fold (\<lambda>i ls. ls @ [SAGEConv_init (w ls) n_in n_out aggregator_type dropout activation])
        xs acc)
   = map layer_config acc
       @ replicate (length xs) (n_in, n_out, aggregator_type, dropout, activation)"
proof (induction xs arbitrary: acc)
  case Nil
  then show ?case by simp
next
  case (Cons x xs)
  let ?f = "\<lambda>i ls. ls @ [SAGEConv_init (w ls) n_in n_out aggregator_type dropout activation]"
  let ?new = "SAGEConv_init (w acc) n_in n_out aggregator_type dropout activation"
  let ?c = "(n_in, n_out, aggregator_type, dropout, activation)"
  have "map layer_config (fold ?f (x # xs) acc) = map layer_config (fold ?f xs (acc @ [?new]))"
    by simp
  also have "\<dots> = map layer_config (acc @ [?new]) @ replicate (length xs) ?c"
    by (rule Cons.IH)
  also have "\<dots> = map layer_config acc @ replicate (length (x # xs)) ?c"
    by (simp add: layer_config_def SAGEConv_init_def)
  finally show ?case .
qed

text \<open>
  C6, as the code has it. The layers of the assembled model are of one kind (the same
  aggregator type and dropout rate) and are chained by dimension: the input layer maps
  \<open>in_feats\<close> to \<open>n_hidden\<close> with the given activation, each of the
  \<open>n_layers - 1\<close> hidden layers maps \<open>n_hidden\<close> to \<open>n_hidden\<close> with the given
  activation, so the hidden layers are identical to one another, and the output layer
  maps \<open>n_hidden\<close> to \<open>out_dim\<close> with no activation.
\<close>

theorem GraphSAGEModel_init_layer_configs:
  "map layer_config (layers (GraphSAGEModel_init init_w in_feats n_hidden out_dim n_layers
        activation dropout aggregator_type))
   = (in_feats, n_hidden, aggregator_type, dropout, activation)
     # replicate (nat (n_layers - 1)) (n_hidden, n_hidden, aggregator_type, dropout, activation)
     @ [(n_hidden, out_dim, aggregator_type, dropout, None)]"
  by (simp add: GraphSAGEModel_init_def Let_def layer_config_fold_append range_py_def)
    (simp add: layer_config_def SAGEConv_init_def)

text \<open>
  C6, as the spec has it, fails: in the two-layer model of the small instance the input
  layer takes 2 features and the hidden layer 64, and the output layer has no
  activation where the others have one.
\<close>

theorem identical_layers_counterexample:
  "\<not> identical_layers (layers (gconv_model example_model))"
  by (simp add: identical_layers_def example_model_def NodeClassification_init_def
      GraphSAGEModel_init_def range_py_def Let_def SAGEConv_init_def)

section \<open>The index sets of the split\<close>

lemma np_where_gt0_set:
  "i \<in> set (np_where_gt0 msk) \<longleftrightarrow> 0 \<le> i \<and> i < int (length msk) \<and> 0 < msk ! nat i"
proof
  assume "i \<in> set (np_where_gt0 msk)"
  then obtain k where "k < length msk" and "0 < msk ! k" and "i = int k"
    by (auto simp: np_where_gt0_def)
  then show "0 \<le> i \<and> i < int (length msk) \<and> 0 < msk ! nat i"
    by simp
next
  assume a: "0 \<le> i \<and> i < int (length msk) \<and> 0 < msk ! nat i"
  then have "nat i < length msk" and "0 < msk ! nat i" and "i = int (nat i)"
    by linarith+
  then show "i \<in> set (np_where_gt0 msk)"
    unfolding np_where_gt0_def by (metis (mono_tags, lifting) atLeastLessThan_iff
        atLeastLessThan_upt image_eqI le0 mem_Collect_eq set_filter set_map)
qed

text \<open>
  C7. For a mask with one entry per node, the index set computed from it holds only
  indices \<open>i\<close> with \<open>0 \<le> i < node_count\<close>, and slicing a node-level array (one entry
  per node) by it stays in bounds: it raises nothing and yields the entries at the
  indices. This holds for each of the train, validation and test masks.
\<close>

theorem np_where_gt0_in_bounds:
  assumes "length msk = node_count" and "length t = node_count"
  shows "index_set node_count (np_where_gt0 msk)
    \<and> index_select t (np_where_gt0 msk) = Inr (rows_at t (np_where_gt0 msk))"
proof -
  have "index_set node_count (np_where_gt0 msk)"
    using assms(1) by (simp add: index_set_iff np_where_gt0_set)
  moreover from this assms(2) have "index_select t (np_where_gt0 msk)
      = Inr (rows_at t (np_where_gt0 msk))"
    by (simp add: index_select_in_bounds)
  ultimately show ?thesis
    by simp
qed

theorem np_where_gt0_in_bounds_witness:
  "index_set 3 (np_where_gt0 [1, 0, 1])
    \<and> index_select example_labels (np_where_gt0 [1, 0, 1]) = Inr [1, 0]"
proof -
  have "index_set 3 (np_where_gt0 [1, 0, 1])
      \<and> index_select example_labels (np_where_gt0 [1, 0, 1])
        = Inr (rows_at example_labels (np_where_gt0 [1, 0, 1]))"
    by (rule np_where_gt0_in_bounds) (simp_all add: example_labels_def)
  moreover have "np_where_gt0 [1, 0, 1] = [0, 2]"
    by (simp add: np_where_gt0_def upt_rec)
  ultimately show ?thesis
    by (simp add: rows_at_def example_labels_def)
qed

end
